theory Spec2Isabelle
  imports Main "HOL-Library.Sublist"
begin

section \<open>The chattybackend server: setupServer.ts\<close>

text \<open>
  The repository is one class, \<open>ChattyServer\<close>, that wires an Express application:
  it registers middleware and handlers on the application in a fixed order and then
  brings up an HTTP server with a socket.io server on top of it, backed by two Redis
  clients. The model below follows the class method by method.

  The Express application is the ordered stack of layers that \<open>app.use\<close> and
  \<open>app.all\<close> append to. The middleware taken from libraries (cookie-session, hpp,
  helmet, cors, compression, the body parsers) are kept as tagged values carrying the
  options the source passes; what they do to a request is a parameter \<open>lib\<close> of the
  dispatcher. The routes registered by \<open>applicationRoutes\<close> (module \<open>./routes\<close>) and
  the configuration object (module \<open>./config\<close>) are parameters as well.

  The entry point \<open>app.ts\<close> validates the configuration, connects the database,
  creates the application with \<open>express()\<close> and calls \<open>start\<close> on a new
  \<open>ChattyServer\<close>; the first two are in modules of their own, and the model starts
  at \<open>start\<close> with the application still empty.
\<close>

subsection \<open>Values\<close>

datatype json =
    JNull
  | JBool bool
  | JNumber int
  | JString string
  | JArray "json list"
  | JObject "(string \<times> json) list"

text \<open>A number appended to a string: its decimal digits.\<close>

fun string_of_nat :: "nat \<Rightarrow> string" where
  "string_of_nat n =
     (if n < 10 then [char_of (48 + n)]
      else string_of_nat (n div 10) @ [char_of (48 + n mod 10)])"

declare string_of_nat.simps [simp del]

text \<open>
  What can be thrown or passed to \<open>next\<close>. The class \<open>CustomError\<close> lives in
  \<open>shared/globals/helpers/error-handler\<close>; the handler uses its field \<open>statusCode\<close> and
  its method \<open>serializeErrors()\<close>, whose result is carried here as a field. Anything else
  is an \<open>OtherError\<close>; \<open>instanceof CustomError\<close> is the test on the constructor.
  Of a stack only the first line is kept (the name of the error and its message); the
  frames below it depend on the installation.
\<close>

datatype failure =
    CustomError (statusCode: nat) (serializeErrors: json) (message: string) (stack: string)
  | OtherError (message: string) (stack: string)

fun instanceofCustomError :: "failure \<Rightarrow> bool" where
  "instanceofCustomError (CustomError c s m t) = True"
| "instanceofCustomError (OtherError m t) = False"

text \<open>The bunyan logger \<open>log\<close>: \<open>log.info\<close> of a string, \<open>log.error\<close> of an error object.\<close>

datatype log_entry = Info string | Error failure

text \<open>
  The fields of \<open>config\<close> that the class reads. Each is \<open>string | undefined\<close> in the
  source (the keys are read with a non-null assertion, which does nothing at run time).
\<close>

record config =
  SECRET_KEY_ONE :: "string option"
  SECRET_KEY_TWO :: "string option"
  NODE_ENV :: "string option"
  CLIENT_URL :: "string option"
  REDIS_HOST :: "string option"

definition SERVER_PORT :: nat where
  "SERVER_PORT = 5000"

text \<open>\<open>HTTP_STATUS.NOT_FOUND\<close> of the package http-status-codes.\<close>

definition NOT_FOUND :: nat where
  "NOT_FOUND = 404"

subsection \<open>Options handed to the library middleware\<close>

record cookie_session_options =
  name :: string
  keys :: "string option list"
  maxAge :: nat
  secure :: bool

record cors_base =
  origin :: "string option"
  methods :: "string list"

record cors_options = cors_base +
  credentials :: bool
  optionsSuccessStatus :: nat

record parser_options =
  limit :: string

record urlencoded_options = parser_options +
  extended :: bool

datatype middleware =
    CookieSession cookie_session_options
  | Hpp
  | Helmet
  | Cors cors_options
  | Compression
  | Json parser_options
  | Urlencoded urlencoded_options

subsection \<open>Requests, responses and layers\<close>

text \<open>
  The request as the handlers see it. \<open>path\<close> is what Express reads as the path of the
  request: the pathname that its URL parser finds in \<open>url\<close>. \<open>revalidates\<close> stands for
  the validators a conditional request carries (\<open>If-None-Match\<close>, \<open>If-Modified-Since\<close>):
  it says whether they match a response with the given headers and body.
\<close>

record request =
  reqMethod :: string
  originalUrl :: string
  url :: string
  path :: string
  session :: "json option"
  parsed :: "json option"
  revalidates :: "(string \<times> string) list \<Rightarrow> json \<Rightarrow> bool"

record response =
  status :: nat
  headers :: "(string \<times> string) list"
  body :: "json option"
  headersSent :: bool

text \<open>
  What a handler does with the request: it calls \<open>next()\<close>, it calls \<open>next(err)\<close> (or
  throws, which express-async-errors turns into the same), or it ends the response.
\<close>

datatype outcome =
    Next request response
  | NextErr failure request response
  | End response

text \<open>
  Matching a layer's path against the request: it matches, it does not, or decoding a
  captured part of the path fails, and that failure becomes the pending error.
\<close>

datatype matched = Matches | NoMatch | MatchFails failure

type_synonym matcher = "request \<Rightarrow> matched"
type_synonym handler = "request \<Rightarrow> response \<Rightarrow> outcome"
type_synonym error_handler =
  "failure \<Rightarrow> request \<Rightarrow> response \<Rightarrow> log_entry list \<Rightarrow> outcome \<times> log_entry list"

datatype layer =
    Use middleware
  | Route matcher handler
  | UseError error_handler

type_synonym app = "layer list"

definition app_use :: "middleware \<Rightarrow> app \<Rightarrow> app" where
  "app_use m a = a @ [Use m]"

definition app_all :: "matcher \<Rightarrow> handler \<Rightarrow> app \<Rightarrow> app" where
  "app_all p h a = a @ [Route p h]"

definition app_use_error :: "error_handler \<Rightarrow> app \<Rightarrow> app" where
  "app_use_error h a = a @ [UseError h]"

subsection \<open>res.status and res.json\<close>

text \<open>
  \<open>res.status(code)\<close> stores the code. \<open>res.json(value)\<close> sets headers and ends the
  response, and each of the two can throw, which Express hands to \<open>next\<close> as it does
  for any throw of a handler:
  \<^item> setting a header after the headers were sent throws \<open>ERR_HTTP_HEADERS_SENT\<close>;
  \<^item> writing the head with a status code outside 100..999 throws the \<open>RangeError\<close>
    \<open>ERR_HTTP_INVALID_STATUS_CODE\<close>, with the code already stored and nothing sent.
  Before the head is written, a \<open>GET\<close> or \<open>HEAD\<close> request whose validators match a
  response with a 2xx or 304 code has the code replaced by 304 (\<open>req.fresh\<close>). Then
  the head is sent with the stored code. No body goes with it for a \<open>HEAD\<close> request,
  nor for a status that carries none: 1xx, 204 and 304 (Node), 205 (Express); in every
  other case the body is the value. The headers that \<open>res.json\<close> adds (content type,
  length, entity tag) are not tracked.
\<close>

definition headersSentError :: failure where
  "headersSentError =
     OtherError ''Cannot set headers after they are sent to the client''
       ''Error [ERR_HTTP_HEADERS_SENT]: Cannot set headers after they are sent to the client''"

definition invalidStatusCode :: "nat \<Rightarrow> failure" where
  "invalidStatusCode c =
     OtherError (''Invalid status code: '' @ string_of_nat c)
       (''RangeError [ERR_HTTP_INVALID_STATUS_CODE]: Invalid status code: '' @ string_of_nat c)"

definition noBody :: "request \<Rightarrow> nat \<Rightarrow> bool" where
  "noBody req c = (reqMethod req = ''HEAD'' \<or> c < 200 \<or> c = 204 \<or> c = 205 \<or> c = 304)"

definition isFresh :: "request \<Rightarrow> response \<Rightarrow> json \<Rightarrow> bool" where
  "isFresh req res v =
     ((reqMethod req = ''GET'' \<or> reqMethod req = ''HEAD'') \<and>
      ((200 \<le> status res \<and> status res < 300) \<or> status res = 304) \<and>
      revalidates req (headers res) v)"

definition res_status :: "nat \<Rightarrow> response \<Rightarrow> response" where
  "res_status c res = res\<lparr>status := c\<rparr>"

definition res_json :: "json \<Rightarrow> request \<Rightarrow> response \<Rightarrow> outcome" where
  "res_json v req res =
     (if headersSent res then NextErr headersSentError req res
      else
        let res' = (if isFresh req res v then res\<lparr>status := 304\<rparr> else res) in
        if status res' < 100 \<or> 999 < status res'
          then NextErr (invalidStatusCode (status res')) req res'
        else if noBody req (status res') then End (res'\<lparr>headersSent := True\<rparr>)
        else End (res'\<lparr>body := Some v, headersSent := True\<rparr>))"

subsection \<open>securityMiddleware, standardMiddleware, routeMiddleware\<close>

definition cookieSessionOptions :: "config \<Rightarrow> cookie_session_options" where
  "cookieSessionOptions cfg =
     \<lparr> name = ''session'',
       keys = [SECRET_KEY_ONE cfg, SECRET_KEY_TWO cfg],
       maxAge = 24 * 7 * 3600000,
       secure = (NODE_ENV cfg \<noteq> Some ''development'') \<rparr>"

definition corsOptions :: "config \<Rightarrow> cors_options" where
  "corsOptions cfg =
     \<lparr> origin = CLIENT_URL cfg,
       methods = [''GET'', ''POST'', ''DELETE'', ''OPTIONS''],
       credentials = True,
       optionsSuccessStatus = 200 \<rparr>"

definition securityMiddleware :: "config \<Rightarrow> app \<Rightarrow> app" where
  "securityMiddleware cfg a =
     app_use (Cors (corsOptions cfg))
       (app_use Helmet
         (app_use Hpp
           (app_use (CookieSession (cookieSessionOptions cfg)) a)))"

definition standardMiddleware :: "app \<Rightarrow> app" where
  "standardMiddleware a =
     app_use (Urlencoded \<lparr> limit = ''50mb'', extended = True \<rparr>)
       (app_use (Json \<lparr> limit = ''50mb'' \<rparr>)
         (app_use Compression a))"

text \<open>
  \<open>applicationRoutes(app)\<close> is defined in \<open>./routes\<close>: the routes it registers are the
  parameter \<open>routes\<close>, each a path test and a handler, appended in their order.
\<close>

definition routeMiddleware :: "(matcher \<times> handler) list \<Rightarrow> app \<Rightarrow> app" where
  "routeMiddleware routes a = a @ map (\<lambda>(p, h). Route p h) routes"

subsection \<open>globalErrorHandler\<close>

text \<open>
  The path \<open>'*'\<close> of \<open>app.all\<close> takes every method and captures the whole path of the
  request as a parameter, which Express decodes with \<open>decodeURIComponent\<close> while it
  matches. Decoding fails with a \<open>URIError\<close> when a \<open>%\<close> is not followed by two
  hexadecimal digits, or when the octets written that way are not well-formed UTF-8;
  then the layer does not match and the \<open>URIError\<close> is the pending error.

  \<open>leadOctet\<close> gives, for the first octet of a character, the ranges in which the
  octets after it must lie; \<open>decodes\<close> reads the path with the ranges still owed.
\<close>

definition hexDigit :: "char \<Rightarrow> nat option" where
  "hexDigit c =
     (let n = (of_char c :: nat) in
      if 48 \<le> n \<and> n \<le> 57 then Some (n - 48)
      else if 65 \<le> n \<and> n \<le> 70 then Some (n - 55)
      else if 97 \<le> n \<and> n \<le> 102 then Some (n - 87)
      else None)"

definition leadOctet :: "nat \<Rightarrow> (nat \<times> nat) list option" where
  "leadOctet b =
     (if b < 128 then Some []
      else if 194 \<le> b \<and> b \<le> 223 then Some [(128, 191)]
      else if b = 224 then Some [(160, 191), (128, 191)]
      else if 225 \<le> b \<and> b \<le> 236 then Some [(128, 191), (128, 191)]
      else if b = 237 then Some [(128, 159), (128, 191)]
      else if 238 \<le> b \<and> b \<le> 239 then Some [(128, 191), (128, 191)]
      else if b = 240 then Some [(144, 191), (128, 191), (128, 191)]
      else if 241 \<le> b \<and> b \<le> 243 then Some [(128, 191), (128, 191), (128, 191)]
      else if b = 244 then Some [(128, 143), (128, 191), (128, 191)]
      else None)"

fun decodes :: "(nat \<times> nat) list \<Rightarrow> string \<Rightarrow> bool" where
  "decodes owed [] = (owed = [])"
| "decodes owed (c # cs) =
     (if c = CHR ''%''
      then (case cs of
              a # b # rest \<Rightarrow>
                (case (hexDigit a, hexDigit b) of
                   (Some x, Some y) \<Rightarrow>
                     (case owed of
                        [] \<Rightarrow>
                          (case leadOctet (16 * x + y) of
                             None \<Rightarrow> False
                           | Some owed' \<Rightarrow> decodes owed' rest)
                      | (lo, hi) # owed' \<Rightarrow>
                          lo \<le> 16 * x + y \<and> 16 * x + y \<le> hi \<and> decodes owed' rest)
                 | _ \<Rightarrow> False)
            | _ \<Rightarrow> False)
      else owed = [] \<and> decodes [] cs)"

definition decodeParamError :: "string \<Rightarrow> failure" where
  "decodeParamError val =
     OtherError (''Failed to decode param '' @ [CHR 0x27] @ val @ [CHR 0x27])
       (''URIError: Failed to decode param '' @ [CHR 0x27] @ val @ [CHR 0x27])"

definition star :: matcher where
  "star req =
     (if decodes [] (path req) then Matches
      else MatchFails (decodeParamError (path req)))"

definition notFoundHandler :: handler where
  "notFoundHandler req res =
     res_json (JObject [(''message'', JString (originalUrl req @ '' not found''))]) req
       (res_status NOT_FOUND res)"

definition errorMiddleware :: error_handler where
  "errorMiddleware error req res lg =
     (let lg' = lg @ [Error error] in
      if instanceofCustomError error
      then (res_json (serializeErrors error) req (res_status (statusCode error) res), lg')
      else (Next req res, lg'))"

definition globalErrorHandler :: "app \<Rightarrow> app" where
  "globalErrorHandler a = app_use_error errorMiddleware (app_all star notFoundHandler a)"

subsection \<open>Dispatching a request through the stack\<close>

text \<open>
  Express walks the stack in order and tries every layer's path. A \<open>Route\<close> whose
  path cannot be matched because decoding fails is passed over, and the failure becomes
  the pending error unless one is pending already. While no error is pending, a \<open>Use\<close>
  layer runs, a \<open>Route\<close> runs if it matches, and a four-argument error handler is
  skipped. Once an error is pending, only error handlers run; an error handler that
  calls \<open>next()\<close> with no argument clears the pending error. A handler that throws
  has called \<open>next\<close> with what it threw. A request that leaves the stack is handed to
  the framework's final handler, which is not part of the repository: it is the result
  \<open>Unhandled\<close>.
\<close>

record served =
  logged :: "log_entry list"
  invoked :: "layer list"

datatype final =
    Sent response
  | Unhandled "failure option" request response

text \<open>
  One layer: what its handler did if it ran, else the error pending after it was
  passed over.
\<close>

datatype ran = Ran outcome | Skipped "failure option"

definition runLayer ::
  "(middleware \<Rightarrow> handler) \<Rightarrow> layer \<Rightarrow> failure option \<Rightarrow> request \<Rightarrow> response \<Rightarrow> served
     \<Rightarrow> ran \<times> served" where
  "runLayer lib l err req res st =
     (case l of
        Use m \<Rightarrow>
          (case err of
             None \<Rightarrow> (Ran (lib m req res), st\<lparr>invoked := invoked st @ [l]\<rparr>)
           | Some e \<Rightarrow> (Skipped err, st))
      | Route p h \<Rightarrow>
          (case p req of
             MatchFails e' \<Rightarrow>
               (Skipped (case err of None \<Rightarrow> Some e' | Some e \<Rightarrow> Some e), st)
           | NoMatch \<Rightarrow> (Skipped err, st)
           | Matches \<Rightarrow>
               (case err of
                  None \<Rightarrow> (Ran (h req res), st\<lparr>invoked := invoked st @ [l]\<rparr>)
                | Some e \<Rightarrow> (Skipped err, st)))
      | UseError h \<Rightarrow>
          (case err of
             None \<Rightarrow> (Skipped err, st)
           | Some e \<Rightarrow>
               (let (out, lg) = h e req res (logged st)
                in (Ran out, st\<lparr>logged := lg, invoked := invoked st @ [l]\<rparr>))))"

fun dispatch ::
  "(middleware \<Rightarrow> handler) \<Rightarrow> app \<Rightarrow> failure option \<Rightarrow> request \<Rightarrow> response \<Rightarrow> served
     \<Rightarrow> final \<times> served" where
  "dispatch lib [] err req res st = (Unhandled err req res, st)"
| "dispatch lib (l # ls) err req res st =
     (case runLayer lib l err req res st of
        (Skipped err', st') \<Rightarrow> dispatch lib ls err' req res st'
      | (Ran (Next q r), st') \<Rightarrow> dispatch lib ls None q r st'
      | (Ran (NextErr e q r), st') \<Rightarrow> dispatch lib ls (Some e) q r st'
      | (Ran (End r), st') \<Rightarrow> (Sent r, st'))"

text \<open>
  An inbound request enters the stack with no error pending; the record of the layers
  invoked starts empty for each request, the log is the server's.
\<close>

definition handleRequest ::
  "(middleware \<Rightarrow> handler) \<Rightarrow> app \<Rightarrow> request \<Rightarrow> response \<Rightarrow> log_entry list
     \<Rightarrow> final \<times> served" where
  "handleRequest lib a req res lg = dispatch lib a None req res \<lparr>logged = lg, invoked = []\<rparr>"

subsection \<open>The world of startServer\<close>

text \<open>
  Starting the server creates objects (the HTTP server, the socket.io server, two Redis
  clients, the adapter) and calls into them. Objects are handles drawn from a counter;
  each call that returns leaves an event, in order. Whether a call throws, how each
  \<open>connect()\<close> promise settles, the process id and whether the \<open>listening\<close> callback
  fires or the binding of the port fails are given by the environment.
\<close>

type_synonym handle = nat

datatype event =
    HttpServerCreated handle
  | SocketServerCreated handle handle cors_base
  | ClientCreated handle "string option"
  | ClientDuplicated handle handle
  | ConnectCalled handle
  | AdapterCreated handle handle handle
  | AdapterSet handle handle
  | ListenCalled handle nat
  | ErrorEmitted handle failure
  | Logged log_entry

datatype step =
    NewHttpServer
  | NewSocketServer
  | CreateClient
  | Duplicate
  | CreateAdapter
  | IoAdapter
  | Listen

datatype settle = Fulfils | Rejects failure | Pending

text \<open>
  What comes of \<open>listen\<close> after the call has returned: the port is bound and the
  \<open>listening\<close> callback runs, or binding fails and the server emits an \<open>error\<close>
  event, or neither has happened.
\<close>

datatype binding = Binds | BindFails failure | BindPending

record env =
  throws :: "step \<Rightarrow> failure option"
  connectPub :: settle
  connectSub :: settle
  subSettlesFirst :: bool
  pid :: nat
  portBinding :: binding

record world =
  fresh :: handle
  events :: "event list"

text \<open>
  An \<open>async\<close> body returns, throws, or stays suspended at an \<open>await\<close> whose promise never
  settles. \<open>Aborts\<close> is the end of the process on an exception that nothing caught: it
  is not a throw of the body, and no \<open>catch\<close> of the body sees it.
\<close>

datatype 'a result =
    Returns 'a world
  | Throws failure world
  | Suspends world
  | Aborts failure world

fun world_of :: "'a result \<Rightarrow> world" where
  "world_of (Returns x w) = w"
| "world_of (Throws e w) = w"
| "world_of (Suspends w) = w"
| "world_of (Aborts e w) = w"

definition ret :: "'a \<Rightarrow> world \<Rightarrow> 'a result" where
  "ret x w = Returns x w"

definition and_then ::
  "(world \<Rightarrow> 'a result) \<Rightarrow> ('a \<Rightarrow> world \<Rightarrow> 'b result) \<Rightarrow> world \<Rightarrow> 'b result" where
  "and_then m f w =
     (case m w of
        Returns x w' \<Rightarrow> f x w'
      | Throws e w' \<Rightarrow> Throws e w'
      | Suspends w' \<Rightarrow> Suspends w'
      | Aborts e w' \<Rightarrow> Aborts e w')"

definition try_catch ::
  "(world \<Rightarrow> 'a result) \<Rightarrow> (failure \<Rightarrow> world \<Rightarrow> 'a result) \<Rightarrow> world \<Rightarrow> 'a result" where
  "try_catch m h w =
     (case m w of
        Throws e w' \<Rightarrow> h e w'
      | r \<Rightarrow> r)"

definition emit :: "event \<Rightarrow> world \<Rightarrow> unit result" where
  "emit ev w = Returns () (w\<lparr>events := events w @ [ev]\<rparr>)"

definition alloc :: "world \<Rightarrow> handle result" where
  "alloc w = Returns (fresh w) (w\<lparr>fresh := Suc (fresh w)\<rparr>)"

definition extern :: "env \<Rightarrow> step \<Rightarrow> world \<Rightarrow> unit result" where
  "extern en s w = (case throws en s of None \<Rightarrow> Returns () w | Some e \<Rightarrow> Throws e w)"

text \<open>A library call that hands back a new object: it throws, or the object exists.\<close>

definition construct :: "env \<Rightarrow> step \<Rightarrow> (handle \<Rightarrow> event) \<Rightarrow> world \<Rightarrow> handle result" where
  "construct en s ev =
     and_then (extern en s) (\<lambda>_.
     and_then alloc (\<lambda>h.
     and_then (emit (ev h)) (\<lambda>_.
     ret h)))"

text \<open>
  An \<open>error\<close> event on an emitter that has no listener for it is thrown where it is
  emitted, on the event loop: the exception is uncaught and the process ends.
\<close>

definition unhandledErrorEvent :: "handle \<Rightarrow> failure \<Rightarrow> world \<Rightarrow> 'a result" where
  "unhandledErrorEvent h e w = Aborts e (w\<lparr>events := events w @ [ErrorEmitted h e]\<rparr>)"

definition await :: "settle \<Rightarrow> world \<Rightarrow> unit result" where
  "await p w =
     (case p of
        Fulfils \<Rightarrow> Returns () w
      | Rejects e \<Rightarrow> Throws e w
      | Pending \<Rightarrow> Suspends w)"

text \<open>
  \<open>Promise.all\<close> of two promises: fulfilled when both are, rejected with the first
  rejection to happen (when both reject, the flag says whether the second was first),
  pending otherwise.
\<close>

fun promise_all :: "settle \<Rightarrow> settle \<Rightarrow> bool \<Rightarrow> settle" where
  "promise_all Fulfils Fulfils second_first = Fulfils"
| "promise_all Fulfils (Rejects f) second_first = Rejects f"
| "promise_all Fulfils Pending second_first = Pending"
| "promise_all (Rejects e) Fulfils second_first = Rejects e"
| "promise_all (Rejects e) (Rejects f) second_first = Rejects (if second_first then f else e)"
| "promise_all (Rejects e) Pending second_first = Rejects e"
| "promise_all Pending Fulfils second_first = Pending"
| "promise_all Pending (Rejects f) second_first = Rejects f"
| "promise_all Pending Pending second_first = Pending"

subsection \<open>createSocketIO, startHttpServer, socketIOConnections, startServer\<close>

text \<open>
  Both \<open>connect()\<close> calls are made while the array for \<open>Promise.all\<close> is built; the
  \<open>await\<close> then waits for the two promises together. What comes of \<open>listen\<close> arrives
  after the call has returned; \<open>socketIOConnections\<close>, which runs before that, has an
  empty body, so it is placed right after the call. The source puts no \<open>error\<close>
  listener on the HTTP server.
\<close>

definition createSocketIO :: "env \<Rightarrow> config \<Rightarrow> handle \<Rightarrow> world \<Rightarrow> handle result" where
  "createSocketIO en cfg httpServer =
     and_then (construct en NewSocketServer (\<lambda>h. SocketServerCreated h httpServer
                 \<lparr> origin = CLIENT_URL cfg,
                   methods = [''GET'', ''POST'', ''DELETE'', ''OPTIONS''] \<rparr>)) (\<lambda>io.
     and_then (construct en CreateClient (\<lambda>h. ClientCreated h (REDIS_HOST cfg))) (\<lambda>pubClient.
     and_then (construct en Duplicate (\<lambda>h. ClientDuplicated h pubClient)) (\<lambda>subClient.
     and_then (emit (ConnectCalled pubClient)) (\<lambda>_.
     and_then (emit (ConnectCalled subClient)) (\<lambda>_.
     and_then (await (promise_all (connectPub en) (connectSub en) (subSettlesFirst en))) (\<lambda>_.
     and_then (construct en CreateAdapter (\<lambda>h. AdapterCreated h pubClient subClient)) (\<lambda>adapter.
     and_then (extern en IoAdapter) (\<lambda>_.
     and_then (emit (AdapterSet io adapter)) (\<lambda>_.
     ret io)))))))))"

definition startHttpServer :: "env \<Rightarrow> handle \<Rightarrow> world \<Rightarrow> unit result" where
  "startHttpServer en httpServer =
     and_then (emit (Logged (Info (''Server has started with process '' @ string_of_nat (pid en))))) (\<lambda>_.
     and_then (extern en Listen) (\<lambda>_.
     and_then (emit (ListenCalled httpServer SERVER_PORT)) (\<lambda>_.
     (case portBinding en of
        Binds \<Rightarrow> emit (Logged (Info (''Server running on port'' @ string_of_nat SERVER_PORT)))
      | BindFails e \<Rightarrow> unhandledErrorEvent httpServer e
      | BindPending \<Rightarrow> ret ()))))"

definition socketIOConnections :: "handle \<Rightarrow> world \<Rightarrow> unit result" where
  "socketIOConnections io = ret ()"

definition startServerBody :: "env \<Rightarrow> config \<Rightarrow> world \<Rightarrow> unit result" where
  "startServerBody en cfg =
     and_then (construct en NewHttpServer HttpServerCreated) (\<lambda>httpServer.
     and_then (createSocketIO en cfg httpServer) (\<lambda>socketIO.
     and_then (startHttpServer en httpServer) (\<lambda>_.
     socketIOConnections socketIO)))"

definition startServer :: "env \<Rightarrow> config \<Rightarrow> world \<Rightarrow> unit result" where
  "startServer en cfg =
     try_catch (startServerBody en cfg) (\<lambda>error. emit (Logged (Error error)))"

subsection \<open>start\<close>

text \<open>
  The four registrations on the application, then \<open>startServer\<close>, whose promise \<open>start\<close>
  does not wait for.
\<close>

definition start ::
  "config \<Rightarrow> (matcher \<times> handler) list \<Rightarrow> env \<Rightarrow> app \<Rightarrow> world \<Rightarrow> app \<times> unit result" where
  "start cfg routes en a w =
     (let a1 = securityMiddleware cfg a;
          a2 = standardMiddleware a1;
          a3 = routeMiddleware routes a2;
          a4 = globalErrorHandler a3
      in (a4, startServer en cfg w))"

subsection \<open>Reading a stack and a trace\<close>

fun cookieSessionOf :: "layer \<Rightarrow> cookie_session_options option" where
  "cookieSessionOf (Use (CookieSession opts)) = Some opts"
| "cookieSessionOf l = None"

fun corsOf :: "layer \<Rightarrow> cors_options option" where
  "corsOf (Use (Cors opts)) = Some opts"
| "corsOf l = None"

text \<open>What the application sent, if anything: status and body. Else what is pending.\<close>

fun answer :: "final \<Rightarrow> (nat \<times> json option) option" where
  "answer (Sent r) = Some (status r, body r)"
| "answer (Unhandled e q r) = None"

fun pendingOf :: "final \<Rightarrow> failure option" where
  "pendingOf (Sent r) = None"
| "pendingOf (Unhandled e q r) = e"

fun isUseError :: "layer \<Rightarrow> bool" where
  "isUseError (UseError h) = True"
| "isUseError l = False"

fun isListen :: "event \<Rightarrow> bool" where
  "isListen (ListenCalled h p) = True"
| "isListen ev = False"

fun isServer :: "event \<Rightarrow> bool" where
  "isServer (HttpServerCreated h) = True"
| "isServer (SocketServerCreated io h c) = True"
| "isServer ev = False"

fun isClient :: "event \<Rightarrow> bool" where
  "isClient (ClientCreated c u) = True"
| "isClient (ClientDuplicated c d) = True"
| "isClient ev = False"

fun isAdapter :: "event \<Rightarrow> bool" where
  "isAdapter (AdapterCreated a p s) = True"
| "isAdapter (AdapterSet io a) = True"
| "isAdapter ev = False"

fun isConnect :: "event \<Rightarrow> bool" where
  "isConnect (ConnectCalled c) = True"
| "isConnect ev = False"

subsection \<open>Sample inputs\<close>

definition sample_config :: config where
  "sample_config =
     \<lparr> SECRET_KEY_ONE = Some ''first-key'',
       SECRET_KEY_TWO = Some ''second-key'',
       NODE_ENV = Some ''development'',
       CLIENT_URL = Some ''http://localhost:3000'',
       REDIS_HOST = Some ''redis://localhost:6379'' \<rparr>"

text \<open>Library middleware that all call \<open>next()\<close> and leave request and response alone.\<close>

definition passing_lib :: "middleware \<Rightarrow> handler" where
  "passing_lib m req res = Next req res"

text \<open>
  The same, but with cors as the package behaves when \<open>preflightContinue\<close> is not set:
  an \<open>OPTIONS\<close> request is answered at once with the configured
  \<open>optionsSuccessStatus\<close> and no body (the headers cors adds are left out).
\<close>

definition preflight_lib :: "middleware \<Rightarrow> handler" where
  "preflight_lib m req res =
     (case m of
        Cors opts \<Rightarrow>
          if reqMethod req = ''OPTIONS''
          then End (res\<lparr>status := optionsSuccessStatus opts, headersSent := True\<rparr>)
          else Next req res
      | _ \<Rightarrow> Next req res)"

definition at_path :: "string \<Rightarrow> matcher" where
  "at_path p req = (if path req = p then Matches else NoMatch)"

definition ping_route :: "matcher \<times> handler" where
  "ping_route =
     (at_path ''/ping'',
      (\<lambda>req res. End (res\<lparr>body := Some (JString ''pong''), headersSent := True\<rparr>)))"

definition bad_request :: failure where
  "bad_request =
     CustomError 400
       (JObject [(''message'', JString ''invalid''), (''status'', JString ''error''),
                 (''statusCode'', JNumber 400)])
       ''invalid'' ''BadRequestError: invalid''"

definition signup_route :: "matcher \<times> handler" where
  "signup_route = (at_path ''/signup'', (\<lambda>req res. NextErr bad_request req res))"

definition not_modified :: failure where
  "not_modified =
     CustomError 304
       (JObject [(''message'', JString ''unchanged''), (''status'', JString ''error''),
                 (''statusCode'', JNumber 304)])
       ''unchanged'' ''NotModifiedError: unchanged''"

definition cached_route :: "matcher \<times> handler" where
  "cached_route = (at_path ''/cached'', (\<lambda>req res. NextErr not_modified req res))"

definition out_of_range :: failure where
  "out_of_range =
     CustomError 1000
       (JObject [(''message'', JString ''odd''), (''status'', JString ''error''),
                 (''statusCode'', JNumber 1000)])
       ''odd'' ''OddError: odd''"

definition odd_route :: "matcher \<times> handler" where
  "odd_route = (at_path ''/odd'', (\<lambda>req res. NextErr out_of_range req res))"

definition crash :: failure where
  "crash = OtherError ''x is not a function'' ''TypeError: x is not a function''"

definition crash_route :: "matcher \<times> handler" where
  "crash_route = (at_path ''/crash'', (\<lambda>req res. NextErr crash req res))"

text \<open>A request with no query string, no session, no body and no validators.\<close>

definition request_for :: "string \<Rightarrow> string \<Rightarrow> request" where
  "request_for verb p =
     \<lparr> reqMethod = verb, originalUrl = p, url = p, path = p, session = None, parsed = None,
       revalidates = (\<lambda>hs v. False) \<rparr>"

definition blank_response :: response where
  "blank_response = \<lparr> status = 200, headers = [], body = None, headersSent = False \<rparr>"

definition healthy_env :: env where
  "healthy_env =
     \<lparr> throws = (\<lambda>s. None), connectPub = Fulfils, connectSub = Fulfils,
       subSettlesFirst = False, pid = 4242, portBinding = Binds \<rparr>"

definition refused :: failure where
  "refused = OtherError ''connect ECONNREFUSED 127.0.0.1:6379'' ''Error: connect ECONNREFUSED 127.0.0.1:6379''"

definition refusing_env :: env where
  "refusing_env =
     \<lparr> throws = (\<lambda>s. None), connectPub = Rejects refused, connectSub = Pending,
       subSettlesFirst = False, pid = 4242, portBinding = Binds \<rparr>"

definition address_in_use :: failure where
  "address_in_use =
     OtherError ''listen EADDRINUSE: address already in use :::5000''
       ''Error: listen EADDRINUSE: address already in use :::5000''"

definition port_taken_env :: env where
  "port_taken_env =
     \<lparr> throws = (\<lambda>s. None), connectPub = Fulfils, connectSub = Fulfils,
       subSettlesFirst = False, pid = 4242, portBinding = BindFails address_in_use \<rparr>"

definition boot :: world where
  "boot = \<lparr> fresh = 0, events = [] \<rparr>"

section \<open>Properties of request handling\<close>

subsection \<open>The dispatcher\<close>

lemma dispatch_append:
  "dispatch lib (xs @ ys) err req res st =
     (case dispatch lib xs err req res st of
        (Sent r, st') \<Rightarrow> (Sent r, st')
      | (Unhandled e q r, st') \<Rightarrow> dispatch lib ys e q r st')"
  by (induction xs arbitrary: err req res st)
     (simp_all split: prod.splits ran.splits outcome.splits)

lemma dispatch_Use_None:
  "dispatch lib (Use m # ls) None req res st =
     (case lib m req res of
        Next q r \<Rightarrow> dispatch lib ls None q r (st\<lparr>invoked := invoked st @ [Use m]\<rparr>)
      | NextErr e q r \<Rightarrow> dispatch lib ls (Some e) q r (st\<lparr>invoked := invoked st @ [Use m]\<rparr>)
      | End r \<Rightarrow> (Sent r, st\<lparr>invoked := invoked st @ [Use m]\<rparr>))"
  by (simp add: runLayer_def split: outcome.splits)

lemma runLayer_invoked:
  "runLayer lib l err req res st = (out, st') \<Longrightarrow> prefix (invoked st) (invoked st')"
  by (auto simp: runLayer_def split: option.splits layer.splits matched.splits prod.splits)

lemma dispatch_invoked:
  "dispatch lib xs err req res st = (fin, st') \<Longrightarrow> prefix (invoked st) (invoked st')"
proof (induction xs arbitrary: err req res st)
  case Nil
  then show ?case by simp
next
  case (Cons l ls)
  obtain out st1 where r: "runLayer lib l err req res st = (out, st1)"
    by (cases "runLayer lib l err req res st")
  have p1: "prefix (invoked st) (invoked st1)"
    using r by (rule runLayer_invoked)
  show ?case
  proof (cases out)
    case (Skipped err')
    with Cons r p1 show ?thesis by (auto intro: prefix_order.trans)
  next
    case (Ran o1)
    with Cons r p1 show ?thesis by (cases o1) (auto intro: prefix_order.trans)
  qed
qed

lemma prefix_snd_dispatch:
  "prefix (invoked st) (invoked (snd (dispatch lib xs err req res st)))"
  by (rule dispatch_invoked [OF prod.collapse [symmetric]])

lemma dispatch_pending_skip:
  "\<forall>l \<in> set xs. \<not> isUseError l \<Longrightarrow>
   dispatch lib xs (Some e) req res st = (Unhandled (Some e) req res, st)"
proof (induction xs)
  case Nil
  then show ?case by simp
next
  case (Cons l ls)
  then show ?case by (cases l) (simp_all add: runLayer_def split: matched.splits)
qed

lemma errorMiddleware_cases:
  "\<exists>out. errorMiddleware e req res lg = (out, lg @ [Error e])"
  by (simp add: errorMiddleware_def Let_def)

lemma dispatch_pending_last:
  assumes "\<forall>l \<in> set xs. \<not> isUseError l"
  shows "invoked (snd (dispatch lib (xs @ [UseError errorMiddleware]) (Some e) req res st)) =
           invoked st @ [UseError errorMiddleware]"
proof -
  obtain out where out: "errorMiddleware e req res (logged st) = (out, logged st @ [Error e])"
    using errorMiddleware_cases by blast
  show ?thesis
    using assms out
    by (cases out) (simp_all add: dispatch_append dispatch_pending_skip runLayer_def)
qed

lemma dispatch_routes_unmatched:
  "\<forall>(p, h) \<in> set routes. p req = NoMatch \<Longrightarrow>
   dispatch lib (map (\<lambda>(p, h). Route p h) routes) None req res st = (Unhandled None req res, st)"
  by (induction routes) (auto simp: runLayer_def)

subsection \<open>The stack that start registers\<close>

lemma start_app:
  "fst (start cfg routes en [] w) =
     [Use (CookieSession (cookieSessionOptions cfg)), Use Hpp, Use Helmet, Use (Cors (corsOptions cfg)),
      Use Compression, Use (Json \<lparr>limit = ''50mb''\<rparr>),
      Use (Urlencoded \<lparr>limit = ''50mb'', extended = True\<rparr>)]
     @ map (\<lambda>(p, h). Route p h) routes
     @ [Route star notFoundHandler, UseError errorMiddleware]"
  by (simp add: start_def Let_def securityMiddleware_def standardMiddleware_def routeMiddleware_def
      globalErrorHandler_def app_use_def app_all_def app_use_error_def)

lemma start_app_handlers_last:
  "fst (start cfg routes en [] w) =
     routeMiddleware routes (standardMiddleware (securityMiddleware cfg []))
     @ [Route star notFoundHandler, UseError errorMiddleware]"
  by (simp add: start_def Let_def globalErrorHandler_def app_use_error_def app_all_def)

lemma start_app_routes_between:
  "fst (start cfg routes en [] w) =
     standardMiddleware (securityMiddleware cfg [])
     @ map (\<lambda>(p, h). Route p h) routes
     @ [Route star notFoundHandler, UseError errorMiddleware]"
  by (simp add: start_def Let_def globalErrorHandler_def app_use_error_def app_all_def
      routeMiddleware_def)

lemma start_app_gate:
  "\<exists>ms. fst (start cfg routes en [] w) =
     Use (CookieSession (cookieSessionOptions cfg)) # Use Hpp # Use Helmet
       # Use (Cors (corsOptions cfg)) # ms @ [UseError errorMiddleware]
     \<and> (\<forall>l \<in> set ms. \<not> isUseError l)"
proof -
  let ?ms = "[Use Compression, Use (Json \<lparr>limit = ''50mb''\<rparr>),
              Use (Urlencoded \<lparr>limit = ''50mb'', extended = True\<rparr>)]
             @ map (\<lambda>(p, h). Route p h) routes @ [Route star notFoundHandler]"
  have "fst (start cfg routes en [] w) =
     Use (CookieSession (cookieSessionOptions cfg)) # Use Hpp # Use Helmet
       # Use (Cors (corsOptions cfg)) # ?ms @ [UseError errorMiddleware]"
    by (simp add: start_app)
  moreover have "\<forall>l \<in> set ?ms. \<not> isUseError l"
    by auto
  ultimately show ?thesis by blast
qed

lemma routes_no_cookie_session:
  "List.map_filter cookieSessionOf (map (\<lambda>(p, h). Route p h) routes) = []"
  by (induction routes) auto

lemma routes_no_cors:
  "List.map_filter corsOf (map (\<lambda>(p, h). Route p h) routes) = []"
  by (induction routes) auto

lemma map_filter_append:
  "List.map_filter f (xs @ ys) = List.map_filter f xs @ List.map_filter f ys"
  by (simp add: List.map_filter_def)

lemmas stack_defs =
  securityMiddleware_def standardMiddleware_def routeMiddleware_def app_use_def runLayer_def

lemmas handler_defs =
  star_def notFoundHandler_def errorMiddleware_def res_json_def res_status_def noBody_def
  isFresh_def hexDigit_def leadOctet_def NOT_FOUND_def

lemmas sample_defs =
  passing_lib_def at_path_def request_for_def blank_response_def

subsection \<open>The not-found handler\<close>

text \<open>
  Claim C2, as stated, gives every request that matches no registered route the status
  404 and a body with the requested path. Three requests for paths that nothing is
  registered for show otherwise. An \<open>OPTIONS\<close> request is answered by cors, which the
  source configures with \<open>optionsSuccessStatus: 200\<close>, before any route is tried: status
  200, no body. A \<open>HEAD\<close> request reaches the handler and gets the status 404, but
  \<open>res.json\<close> sends no body for \<open>HEAD\<close>. A path with a broken percent-encoding cannot be
  matched against \<open>'*'\<close>: the handler does not run, the \<open>URIError\<close> is logged by the error
  handler, and the application sends nothing.
\<close>

theorem unmatched_route_other_answers:
  "answer (fst (handleRequest preflight_lib
             (fst (start sample_config [ping_route] healthy_env [] boot))
             (request_for ''OPTIONS'' ''/nowhere'') blank_response [])) = Some (200, None)
   \<and> answer (fst (handleRequest passing_lib
             (fst (start sample_config [ping_route] healthy_env [] boot))
             (request_for ''HEAD'' ''/nowhere'') blank_response [])) = Some (404, None)
   \<and> answer (fst (handleRequest passing_lib
             (fst (start sample_config [ping_route] healthy_env [] boot))
             (request_for ''GET'' ''/%E0%A4%A'') blank_response [])) = None
   \<and> logged (snd (handleRequest passing_lib
             (fst (start sample_config [ping_route] healthy_env [] boot))
             (request_for ''GET'' ''/%E0%A4%A'') blank_response [])) =
       [Error (decodeParamError ''/%E0%A4%A'')]"
proof (intro conjI)
  show "answer (fst (handleRequest preflight_lib
             (fst (start sample_config [ping_route] healthy_env [] boot))
             (request_for ''OPTIONS'' ''/nowhere'') blank_response [])) = Some (200, None)"
    by (simp add: handleRequest_def start_app runLayer_def preflight_lib_def corsOptions_def
        request_for_def blank_response_def)
  show "answer (fst (handleRequest passing_lib
             (fst (start sample_config [ping_route] healthy_env [] boot))
             (request_for ''HEAD'' ''/nowhere'') blank_response [])) = Some (404, None)"
    by (simp add: handleRequest_def start_app runLayer_def handler_defs sample_defs ping_route_def)
  show "answer (fst (handleRequest passing_lib
             (fst (start sample_config [ping_route] healthy_env [] boot))
             (request_for ''GET'' ''/%E0%A4%A'') blank_response [])) = None"
    by (simp add: handleRequest_def start_app runLayer_def handler_defs sample_defs ping_route_def
        decodeParamError_def)
  show "logged (snd (handleRequest passing_lib
             (fst (start sample_config [ping_route] healthy_env [] boot))
             (request_for ''GET'' ''/%E0%A4%A'') blank_response [])) =
       [Error (decodeParamError ''/%E0%A4%A'')]"
    by (simp add: handleRequest_def start_app runLayer_def handler_defs sample_defs ping_route_def
        decodeParamError_def)
qed

text \<open>
  Claim C2, amended. Take a request that the library middleware registered ahead of the
  routes hand on with no error (run on their own, they leave the request \<open>req'\<close> and the
  response \<open>res'\<close>) and with no headers sent, that no registered route matches, and
  whose path has no malformed percent-encoding. It is answered by the catch-all handler with the status
  \<open>NOT_FOUND\<close> (404); the body is the object whose \<open>message\<close> is the request's
  \<open>originalUrl\<close> followed by \<open>" not found"\<close>, except for a \<open>HEAD\<close> request, which gets the
  status and no body.
\<close>

theorem unmatched_route_not_found:
  assumes "dispatch lib (standardMiddleware (securityMiddleware cfg [])) None req res
             \<lparr>logged = lg, invoked = []\<rparr> = (Unhandled None req' res', st)"
      and "\<forall>(p, h) \<in> set routes. p req' = NoMatch"
      and "decodes [] (path req')"
      and "\<not> headersSent res'"
  shows "handleRequest lib (fst (start cfg routes en [] w)) req res lg =
           (Sent (if reqMethod req' = ''HEAD''
                  then res'\<lparr>status := NOT_FOUND, headersSent := True\<rparr>
                  else res'\<lparr>status := NOT_FOUND,
                            body := Some (JObject [(''message'',
                                     JString (originalUrl req' @ '' not found''))]),
                            headersSent := True\<rparr>),
            st\<lparr>invoked := invoked st @ [Route star notFoundHandler]\<rparr>)
         \<and> NOT_FOUND = 404"
  using assms
  by (simp add: handleRequest_def start_app_routes_between dispatch_append dispatch_routes_unmatched
      runLayer_def star_def notFoundHandler_def res_json_def res_status_def noBody_def isFresh_def
      NOT_FOUND_def)

theorem unmatched_route_not_found_witness:
  "fst (handleRequest passing_lib (fst (start sample_config [ping_route] healthy_env [] boot))
          (request_for ''GET'' ''/nowhere'') blank_response []) =
     Sent \<lparr>status = 404, headers = [],
           body = Some (JObject [(''message'', JString ''/nowhere not found'')]),
           headersSent = True\<rparr>"
proof -
  have gate: "dispatch passing_lib (standardMiddleware (securityMiddleware sample_config [])) None
          (request_for ''GET'' ''/nowhere'') blank_response \<lparr>logged = [], invoked = []\<rparr> =
        (Unhandled None (request_for ''GET'' ''/nowhere'') blank_response,
         snd (dispatch passing_lib (standardMiddleware (securityMiddleware sample_config [])) None
          (request_for ''GET'' ''/nowhere'') blank_response \<lparr>logged = [], invoked = []\<rparr>))"
    by (simp add: stack_defs passing_lib_def)
  have unmatched: "\<forall>(p, h) \<in> set [ping_route]. p (request_for ''GET'' ''/nowhere'') = NoMatch"
    by (simp add: ping_route_def at_path_def request_for_def)
  have path: "decodes [] (path (request_for ''GET'' ''/nowhere''))"
    by (simp add: request_for_def)
  have fresh: "\<not> headersSent blank_response"
    by (simp add: blank_response_def)
  from unmatched_route_not_found [OF gate unmatched path fresh, of healthy_env boot]
  show ?thesis
    by (simp add: NOT_FOUND_def request_for_def blank_response_def)
qed

subsection \<open>The error handler\<close>

text \<open>
  Claim C3, as stated, has the handler answer every \<open>CustomError\<close> with the error's
  status code and its serialization as the body. Three requests show otherwise. For a
  \<open>HEAD\<close> request the status is sent and the body is not. For an error whose status
  code is 304 the same. For an error whose status code is 1000 \<open>res.json\<close> throws inside
  the handler: the application sends nothing and the \<open>RangeError\<close> is pending when the
  request leaves the stack.
\<close>

theorem custom_error_other_answers:
  "answer (fst (handleRequest passing_lib
             (fst (start sample_config [signup_route] healthy_env [] boot))
             (request_for ''HEAD'' ''/signup'') blank_response [])) = Some (400, None)
   \<and> answer (fst (handleRequest passing_lib
             (fst (start sample_config [cached_route] healthy_env [] boot))
             (request_for ''GET'' ''/cached'') blank_response [])) = Some (304, None)
   \<and> answer (fst (handleRequest passing_lib
             (fst (start sample_config [odd_route] healthy_env [] boot))
             (request_for ''GET'' ''/odd'') blank_response [])) = None
   \<and> pendingOf (fst (handleRequest passing_lib
             (fst (start sample_config [odd_route] healthy_env [] boot))
             (request_for ''GET'' ''/odd'') blank_response [])) = Some (invalidStatusCode 1000)"
proof (intro conjI)
  show "answer (fst (handleRequest passing_lib
             (fst (start sample_config [signup_route] healthy_env [] boot))
             (request_for ''HEAD'' ''/signup'') blank_response [])) = Some (400, None)"
    by (simp add: handleRequest_def start_app runLayer_def handler_defs sample_defs
        signup_route_def bad_request_def)
  show "answer (fst (handleRequest passing_lib
             (fst (start sample_config [cached_route] healthy_env [] boot))
             (request_for ''GET'' ''/cached'') blank_response [])) = Some (304, None)"
    by (simp add: handleRequest_def start_app runLayer_def handler_defs sample_defs
        cached_route_def not_modified_def)
  show "answer (fst (handleRequest passing_lib
             (fst (start sample_config [odd_route] healthy_env [] boot))
             (request_for ''GET'' ''/odd'') blank_response [])) = None"
    by (simp add: handleRequest_def start_app runLayer_def handler_defs sample_defs
        odd_route_def out_of_range_def)
  show "pendingOf (fst (handleRequest passing_lib
             (fst (start sample_config [odd_route] healthy_env [] boot))
             (request_for ''GET'' ''/odd'') blank_response [])) = Some (invalidStatusCode 1000)"
    by (simp add: handleRequest_def start_app runLayer_def handler_defs sample_defs
        odd_route_def out_of_range_def)
qed

text \<open>
  Claim C3, amended. When a \<open>CustomError\<close> is pending as the request leaves the
  middleware and the routes (it was raised there and nothing cleared it), no headers
  have been sent and the error's status code lies in 100..999, the error handler logs
  the error and ends the response with that status code. The body is the value of the
  error's \<open>serializeErrors()\<close>, except that no body is sent for a \<open>HEAD\<close> request or for
  a status code below 200 or equal to 204, 205 or 304. One more exception takes a 2xx
  or 304 status code: a conditional \<open>GET\<close> or \<open>HEAD\<close> request whose validators match
  is answered with 304 and no body. The catch-all route ahead of the handler is skipped,
  as every route is while an error is pending.
\<close>

theorem custom_error_serialized:
  assumes "dispatch lib (routeMiddleware routes (standardMiddleware (securityMiddleware cfg []))) None
             req res \<lparr>logged = lg, invoked = []\<rparr> =
           (Unhandled (Some (CustomError c s m t)) req' res', st)"
      and "\<not> headersSent res'"
      and "100 \<le> c" and "c \<le> 999"
  shows "handleRequest lib (fst (start cfg routes en [] w)) req res lg =
           (Sent (if isFresh req' (res'\<lparr>status := c\<rparr>) s
                  then res'\<lparr>status := 304, headersSent := True\<rparr>
                  else if noBody req' c
                  then res'\<lparr>status := c, headersSent := True\<rparr>
                  else res'\<lparr>status := c, body := Some s, headersSent := True\<rparr>),
            st\<lparr>logged := logged st @ [Error (CustomError c s m t)],
               invoked := invoked st @ [UseError errorMiddleware]\<rparr>)"
  using assms
  by (simp add: handleRequest_def start_app_handlers_last dispatch_append
      runLayer_def star_def errorMiddleware_def res_json_def res_status_def noBody_def
      split: matched.splits)

theorem custom_error_serialized_witness:
  "fst (handleRequest passing_lib (fst (start sample_config [signup_route] healthy_env [] boot))
          (request_for ''POST'' ''/signup'') blank_response []) =
     Sent \<lparr>status = 400, headers = [],
           body = Some (JObject [(''message'', JString ''invalid''), (''status'', JString ''error''),
                                 (''statusCode'', JNumber 400)]),
           headersSent = True\<rparr>"
proof -
  have raised: "dispatch passing_lib
          (routeMiddleware [signup_route] (standardMiddleware (securityMiddleware sample_config []))) None
          (request_for ''POST'' ''/signup'') blank_response \<lparr>logged = [], invoked = []\<rparr> =
        (Unhandled (Some (CustomError 400
             (JObject [(''message'', JString ''invalid''), (''status'', JString ''error''),
                       (''statusCode'', JNumber 400)])
             ''invalid'' ''BadRequestError: invalid'')) (request_for ''POST'' ''/signup'') blank_response,
         snd (dispatch passing_lib
          (routeMiddleware [signup_route] (standardMiddleware (securityMiddleware sample_config []))) None
          (request_for ''POST'' ''/signup'') blank_response \<lparr>logged = [], invoked = []\<rparr>))"
    by (simp add: stack_defs sample_defs signup_route_def bad_request_def)
  have fresh: "\<not> headersSent blank_response"
    by (simp add: blank_response_def)
  from custom_error_serialized [OF raised fresh, of healthy_env boot]
  show ?thesis
    by (simp add: noBody_def isFresh_def request_for_def blank_response_def)
qed

text \<open>
  What the handler does with a failure that is not a \<open>CustomError\<close>: it appends it to
  the log and calls \<open>next()\<close> with no argument. Express takes that as the end of the
  error: the request leaves the stack with the response untouched and nothing pending.
\<close>

lemma other_error_dropped:
  assumes "dispatch lib (routeMiddleware routes (standardMiddleware (securityMiddleware cfg []))) None
             req res \<lparr>logged = lg, invoked = []\<rparr> =
           (Unhandled (Some (OtherError m t)) req' res', st)"
  shows "handleRequest lib (fst (start cfg routes en [] w)) req res lg =
           (Unhandled None req' res',
            st\<lparr>logged := logged st @ [Error (OtherError m t)],
               invoked := invoked st @ [UseError errorMiddleware]\<rparr>)"
  using assms
  by (simp add: handleRequest_def start_app_handlers_last dispatch_append
      runLayer_def star_def errorMiddleware_def split: matched.splits)

text \<open>
  Claim C1 asks that a failure that is not a \<open>CustomError\<close> be logged and answered with a
  generic record under a fixed internal-error status. The code logs it and then drops
  it. The request is \<open>GET /crash\<close>, for a route that exists and throws a \<open>TypeError\<close>: the
  failure is logged, the application sends nothing, the response still has the status
  200 and no body it started with, and the request leaves the stack with no error
  pending, as a request for an unknown path would.
\<close>

theorem unrecognized_failure_not_answered:
  "fst (handleRequest passing_lib (fst (start sample_config [crash_route] healthy_env [] boot))
          (request_for ''GET'' ''/crash'') blank_response []) =
     Unhandled None (request_for ''GET'' ''/crash'') blank_response
   \<and> logged (snd (handleRequest passing_lib (fst (start sample_config [crash_route] healthy_env [] boot))
          (request_for ''GET'' ''/crash'') blank_response [])) = [Error crash]
   \<and> status blank_response = 200 \<and> body blank_response = None \<and> \<not> headersSent blank_response"
  by (simp add: handleRequest_def start_app runLayer_def handler_defs sample_defs
      crash_route_def crash_def)

subsection \<open>The options of the security middleware\<close>

text \<open>
  Claim C6. The stack that \<open>start\<close> registers holds exactly one cookie-session
  middleware; its name is \<open>session\<close>, its keys are the two configured keys, first
  \<open>SECRET_KEY_ONE\<close> then \<open>SECRET_KEY_TWO\<close>, its maximum age is seven days in
  milliseconds, and \<open>secure\<close> is set exactly when \<open>NODE_ENV\<close> is not \<open>development\<close>.
\<close>

theorem cookie_session_configuration:
  "List.map_filter cookieSessionOf (fst (start cfg routes en [] w)) =
     [\<lparr> name = ''session'',
        keys = [SECRET_KEY_ONE cfg, SECRET_KEY_TWO cfg],
        maxAge = 7 * 24 * 60 * 60 * 1000,
        secure = (NODE_ENV cfg \<noteq> Some ''development'') \<rparr>]"
  by (simp add: start_app map_filter_append routes_no_cookie_session cookieSessionOptions_def)

text \<open>
  Claim C7. The stack that \<open>start\<close> registers holds exactly one cors middleware; its
  origin is the configured \<open>CLIENT_URL\<close>, credentials are allowed, the methods are GET,
  POST, DELETE and OPTIONS, and the status for a successful preflight is 200.
\<close>

theorem cors_configuration:
  "List.map_filter corsOf (fst (start cfg routes en [] w)) =
     [\<lparr> origin = CLIENT_URL cfg,
        methods = [''GET'', ''POST'', ''DELETE'', ''OPTIONS''],
        credentials = True,
        optionsSuccessStatus = 200 \<rparr>]"
  by (simp add: start_app map_filter_append routes_no_cors corsOptions_def)

subsection \<open>The security middleware run first\<close>

text \<open>
  Claim C8. Whenever a route handler is invoked for an inbound request (an application
  route or the catch-all), the layers invoked for that request begin with cookie-session,
  hpp, helmet and cors, in this order: they are the first four layers of the stack, since
  \<open>start\<close> calls \<open>securityMiddleware\<close> before \<open>routeMiddleware\<close>, and a request on which
  one of them ends the response or raises never reaches a route.
\<close>

theorem security_gate_first:
  assumes "Route p h \<in> set (invoked (snd (handleRequest lib (fst (start cfg routes en [] w)) req res lg)))"
  shows "prefix [Use (CookieSession (cookieSessionOptions cfg)), Use Hpp, Use Helmet,
                 Use (Cors (corsOptions cfg))]
           (invoked (snd (handleRequest lib (fst (start cfg routes en [] w)) req res lg)))"
proof -
  let ?gate = "[Use (CookieSession (cookieSessionOptions cfg)), Use Hpp, Use Helmet,
                Use (Cors (corsOptions cfg))]"
  obtain ms where app: "fst (start cfg routes en [] w) =
       Use (CookieSession (cookieSessionOptions cfg)) # Use Hpp # Use Helmet
         # Use (Cors (corsOptions cfg)) # ms @ [UseError errorMiddleware]"
    and ms: "\<forall>l \<in> set ms. \<not> isUseError l"
    using start_app_gate by blast
  define rest where "rest = ms @ [UseError errorMiddleware]"
  have through: "prefix ?gate (invoked (snd (dispatch lib rest err q r \<lparr>logged = lg, invoked = ?gate\<rparr>)))"
    for err q r
    using prefix_snd_dispatch [of "\<lparr>logged = lg, invoked = ?gate\<rparr>" lib rest err q r] by simp
  have pending: "invoked (snd (dispatch lib (us @ rest) (Some e) q r st)) =
                   invoked st @ [UseError errorMiddleware]"
    if "\<forall>l \<in> set us. \<not> isUseError l" for us e q r st
  proof -
    have "\<forall>l \<in> set (us @ ms). \<not> isUseError l"
      using that ms by auto
    from dispatch_pending_last [OF this, of lib e q r st] show ?thesis
      by (simp add: rest_def)
  qed
  have p0: "invoked (snd (dispatch lib rest (Some e) q r st)) = invoked st @ [UseError errorMiddleware]"
    for e q r st
    using pending [of "[]"] by simp
  have p1: "invoked (snd (dispatch lib (Use m1 # rest) (Some e) q r st)) =
              invoked st @ [UseError errorMiddleware]"
    for m1 e q r st
    using pending [of "[Use m1]"] by simp
  have p2: "invoked (snd (dispatch lib (Use m1 # Use m2 # rest) (Some e) q r st)) =
              invoked st @ [UseError errorMiddleware]"
    for m1 m2 e q r st
    using pending [of "[Use m1, Use m2]"] by simp
  have p3: "invoked (snd (dispatch lib (Use m1 # Use m2 # Use m3 # rest) (Some e) q r st)) =
              invoked st @ [UseError errorMiddleware]"
    for m1 m2 m3 e q r st
    using pending [of "[Use m1, Use m2, Use m3]"] by simp
  have app': "fst (start cfg routes en [] w) =
       Use (CookieSession (cookieSessionOptions cfg)) # Use Hpp # Use Helmet
         # Use (Cors (corsOptions cfg)) # rest"
    using app by (simp add: rest_def)
  have "prefix ?gate (invoked (snd (dispatch lib (fst (start cfg routes en [] w)) None req res
             \<lparr>logged = lg, invoked = []\<rparr>)))
        \<or> Route p h \<notin> set (invoked (snd (dispatch lib (fst (start cfg routes en [] w)) None req res
             \<lparr>logged = lg, invoked = []\<rparr>)))"
    unfolding app'
    by (simp add: dispatch_Use_None p0 p1 p2 p3 through del: dispatch.simps split: outcome.splits)
  with assms show ?thesis
    unfolding handleRequest_def by blast
qed

theorem security_gate_first_witness:
  "invoked (snd (handleRequest passing_lib (fst (start sample_config [ping_route] healthy_env [] boot))
          (request_for ''GET'' ''/ping'') blank_response [])) =
     [Use (CookieSession (cookieSessionOptions sample_config)), Use Hpp, Use Helmet,
      Use (Cors (corsOptions sample_config)), Use Compression, Use (Json \<lparr>limit = ''50mb''\<rparr>),
      Use (Urlencoded \<lparr>limit = ''50mb'', extended = True\<rparr>),
      Route (fst ping_route) (snd ping_route)]
   \<and> prefix [Use (CookieSession (cookieSessionOptions sample_config)), Use Hpp, Use Helmet,
             Use (Cors (corsOptions sample_config))]
        (invoked (snd (handleRequest passing_lib
          (fst (start sample_config [ping_route] healthy_env [] boot))
          (request_for ''GET'' ''/ping'') blank_response [])))"
proof -
  have trace: "invoked (snd (handleRequest passing_lib
          (fst (start sample_config [ping_route] healthy_env [] boot))
          (request_for ''GET'' ''/ping'') blank_response [])) =
     [Use (CookieSession (cookieSessionOptions sample_config)), Use Hpp, Use Helmet,
      Use (Cors (corsOptions sample_config)), Use Compression, Use (Json \<lparr>limit = ''50mb''\<rparr>),
      Use (Urlencoded \<lparr>limit = ''50mb'', extended = True\<rparr>),
      Route (fst ping_route) (snd ping_route)]"
    by (simp add: handleRequest_def start_app runLayer_def sample_defs ping_route_def)
  then have ran: "Route (fst ping_route) (snd ping_route) \<in> set (invoked (snd (handleRequest passing_lib
          (fst (start sample_config [ping_route] healthy_env [] boot))
          (request_for ''GET'' ''/ping'') blank_response [])))"
    by simp
  from security_gate_first [OF ran] trace show ?thesis
    by blast
qed

section \<open>Properties of startup\<close>

lemmas startup_defs = startServer_def startServerBody_def createSocketIO_def startHttpServer_def
  socketIOConnections_def construct_def and_then_def try_catch_def emit_def alloc_def extern_def
  await_def ret_def unhandledErrorEvent_def

lemma promise_all_Fulfils:
  "promise_all p q b = Fulfils \<longleftrightarrow> p = Fulfils \<and> q = Fulfils"
  by (cases p; cases q) simp_all

lemma promise_all_Rejects:
  "promise_all p q b = Rejects e \<Longrightarrow> p = Rejects e \<or> q = Rejects e"
  by (cases p; cases q) (simp_all split: if_splits)

lemma promise_all_rejected:
  "p = Rejects f \<or> q = Rejects f \<Longrightarrow> \<exists>g. promise_all p q b = Rejects g"
  by (cases p; cases q) auto

lemma every_step:
  "(\<forall>s. throws en s = None) \<longleftrightarrow>
     throws en NewHttpServer = None \<and> throws en NewSocketServer = None \<and>
     throws en CreateClient = None \<and> throws en Duplicate = None \<and>
     throws en CreateAdapter = None \<and> throws en IoAdapter = None \<and> throws en Listen = None"
proof
  assume r: "throws en NewHttpServer = None \<and> throws en NewSocketServer = None \<and>
     throws en CreateClient = None \<and> throws en Duplicate = None \<and>
     throws en CreateAdapter = None \<and> throws en IoAdapter = None \<and> throws en Listen = None"
  show "\<forall>s. throws en s = None"
  proof
    fix s show "throws en s = None" using r by (cases s) simp_all
  qed
qed simp

lemma startServer_success:
  assumes "\<forall>s. throws en s = None" "connectPub en = Fulfils" "connectSub en = Fulfils"
  shows "events (world_of (startServer en cfg \<lparr>fresh = n, events = []\<rparr>)) =
      [HttpServerCreated n,
       SocketServerCreated (n + 1) n
         \<lparr>origin = CLIENT_URL cfg, methods = [''GET'', ''POST'', ''DELETE'', ''OPTIONS'']\<rparr>,
       ClientCreated (n + 2) (REDIS_HOST cfg),
       ClientDuplicated (n + 3) (n + 2),
       ConnectCalled (n + 2),
       ConnectCalled (n + 3),
       AdapterCreated (n + 4) (n + 2) (n + 3),
       AdapterSet (n + 1) (n + 4),
       Logged (Info (''Server has started with process '' @ string_of_nat (pid en))),
       ListenCalled n SERVER_PORT] @
      (case portBinding en of
         Binds \<Rightarrow> [Logged (Info (''Server running on port'' @ string_of_nat SERVER_PORT))]
       | BindFails e \<Rightarrow> [ErrorEmitted n e]
       | BindPending \<Rightarrow> [])"
  using assms by (simp add: startup_defs split: binding.splits)

lemma listen_needs_success:
  assumes "ListenCalled h p \<in> set (events (world_of (startServer en cfg \<lparr>fresh = n, events = []\<rparr>)))"
  shows "(\<forall>s. throws en s = None) \<and> connectPub en = Fulfils \<and> connectSub en = Fulfils"
  using assms unfolding every_step
  by (simp add: startup_defs promise_all_Fulfils
      split: option.splits settle.splits binding.splits)

lemma body_rejected:
  assumes "throws en NewHttpServer = None" "throws en NewSocketServer = None"
    "throws en CreateClient = None" "throws en Duplicate = None"
    "promise_all (connectPub en) (connectSub en) (subSettlesFirst en) = Rejects g"
  shows "startServerBody en cfg \<lparr>fresh = n, events = []\<rparr> =
     Throws g \<lparr>fresh = n + 4, events =
       [HttpServerCreated n,
        SocketServerCreated (n + 1) n
          \<lparr>origin = CLIENT_URL cfg, methods = [''GET'', ''POST'', ''DELETE'', ''OPTIONS'']\<rparr>,
        ClientCreated (n + 2) (REDIS_HOST cfg),
        ClientDuplicated (n + 3) (n + 2),
        ConnectCalled (n + 2),
        ConnectCalled (n + 3)]\<rparr>"
  using assms by (simp add: startup_defs)

lemma body_throws_trace:
  assumes "startServerBody en cfg \<lparr>fresh = n, events = []\<rparr> = Throws e w"
  shows "[ev \<leftarrow> events w. isListen ev] = []
       \<and> prefix [ev \<leftarrow> events w. isConnect ev] [ConnectCalled (n + 2), ConnectCalled (n + 3)]"
  using assms
  by (simp add: startup_defs split: option.splits settle.splits binding.splits) auto

lemma startServer_catches:
  "startServer en cfg w0 \<noteq> Throws e w"
  by (simp add: startServer_def try_catch_def emit_def split: result.splits)

text \<open>
  Claim C4. If \<open>listen\<close> is called at all, both \<open>connect()\<close> promises were fulfilled,
  and in the order of events the two clients were created and \<open>connect()\<close> was called on
  each of them before the call of \<open>listen\<close>; no connection is opened after it.
\<close>

theorem listen_after_backbone_connected:
  assumes "ListenCalled h p \<in> set (events (world_of (startServer en cfg \<lparr>fresh = n, events = []\<rparr>)))"
  shows "connectPub en = Fulfils \<and> connectSub en = Fulfils \<and>
         (\<exists>pre post.
            events (world_of (startServer en cfg \<lparr>fresh = n, events = []\<rparr>)) = pre @ ListenCalled h p # post
            \<and> [ev \<leftarrow> pre. isClient ev] = [ClientCreated (n + 2) (REDIS_HOST cfg), ClientDuplicated (n + 3) (n + 2)]
            \<and> [ev \<leftarrow> pre. isConnect ev] = [ConnectCalled (n + 2), ConnectCalled (n + 3)]
            \<and> [ev \<leftarrow> post. isConnect ev] = [])"
proof -
  have ok: "\<forall>s. throws en s = None" "connectPub en = Fulfils" "connectSub en = Fulfils"
    using listen_needs_success [OF assms] by simp_all
  note run = startServer_success [OF ok, of cfg n]
  let ?pre = "[HttpServerCreated n,
       SocketServerCreated (n + 1) n
         \<lparr>origin = CLIENT_URL cfg, methods = [''GET'', ''POST'', ''DELETE'', ''OPTIONS'']\<rparr>,
       ClientCreated (n + 2) (REDIS_HOST cfg),
       ClientDuplicated (n + 3) (n + 2),
       ConnectCalled (n + 2),
       ConnectCalled (n + 3),
       AdapterCreated (n + 4) (n + 2) (n + 3),
       AdapterSet (n + 1) (n + 4),
       Logged (Info (''Server has started with process '' @ string_of_nat (pid en)))]"
  let ?post = "case portBinding en of
         Binds \<Rightarrow> [Logged (Info (''Server running on port'' @ string_of_nat SERVER_PORT))]
       | BindFails e \<Rightarrow> [ErrorEmitted n e]
       | BindPending \<Rightarrow> []"
  have hp: "h = n \<and> p = SERVER_PORT"
    using assms unfolding run by (simp split: binding.splits)
  have "events (world_of (startServer en cfg \<lparr>fresh = n, events = []\<rparr>)) = ?pre @ ListenCalled h p # ?post"
    unfolding run using hp by simp
  moreover have "[ev \<leftarrow> ?pre. isClient ev] = [ClientCreated (n + 2) (REDIS_HOST cfg), ClientDuplicated (n + 3) (n + 2)]"
    by simp
  moreover have "[ev \<leftarrow> ?pre. isConnect ev] = [ConnectCalled (n + 2), ConnectCalled (n + 3)]"
    by simp
  moreover have "[ev \<leftarrow> ?post. isConnect ev] = []"
    by (simp split: binding.splits)
  ultimately show ?thesis
    using ok by blast
qed

theorem listen_after_backbone_connected_witness:
  "ListenCalled 0 5000 \<in> set (events (world_of (startServer healthy_env sample_config \<lparr>fresh = 0, events = []\<rparr>)))
   \<and> connectPub healthy_env = Fulfils \<and> connectSub healthy_env = Fulfils"
proof -
  have listens: "ListenCalled 0 5000 \<in> set (events (world_of
                   (startServer healthy_env sample_config \<lparr>fresh = 0, events = []\<rparr>)))"
    by (simp add: startup_defs healthy_env_def SERVER_PORT_def)
  from listen_after_backbone_connected [OF listens] listens show ?thesis
    by blast
qed

text \<open>
  Claim C5. In a startup where no call throws and both connections are made, exactly two
  Redis clients come into being and they are distinct objects: one made by
  \<open>createClient\<close> with the configured \<open>REDIS_HOST\<close>, the other by \<open>duplicate()\<close> of the
  first; \<open>connect()\<close> is called once on each, and the one adapter that is created and
  installed on the socket.io server is given the first as the publishing client and the
  second as the subscribing client.
\<close>

theorem two_backbone_clients:
  assumes "\<forall>s. throws en s = None" and "connectPub en = Fulfils" and "connectSub en = Fulfils"
  shows "\<exists>pub sub adapter io.
           pub \<noteq> sub
         \<and> [ev \<leftarrow> events (world_of (startServer en cfg \<lparr>fresh = n, events = []\<rparr>)). isClient ev] =
             [ClientCreated pub (REDIS_HOST cfg), ClientDuplicated sub pub]
         \<and> [ev \<leftarrow> events (world_of (startServer en cfg \<lparr>fresh = n, events = []\<rparr>)). isConnect ev] =
             [ConnectCalled pub, ConnectCalled sub]
         \<and> [ev \<leftarrow> events (world_of (startServer en cfg \<lparr>fresh = n, events = []\<rparr>)). isAdapter ev] =
             [AdapterCreated adapter pub sub, AdapterSet io adapter]"
proof -
  have "n + 2 \<noteq> n + 3" by simp
  moreover have "[ev \<leftarrow> events (world_of (startServer en cfg \<lparr>fresh = n, events = []\<rparr>)). isClient ev] =
             [ClientCreated (n + 2) (REDIS_HOST cfg), ClientDuplicated (n + 3) (n + 2)]"
    unfolding startServer_success [OF assms] by (simp split: binding.splits)
  moreover have "[ev \<leftarrow> events (world_of (startServer en cfg \<lparr>fresh = n, events = []\<rparr>)). isConnect ev] =
             [ConnectCalled (n + 2), ConnectCalled (n + 3)]"
    unfolding startServer_success [OF assms] by (simp split: binding.splits)
  moreover have "[ev \<leftarrow> events (world_of (startServer en cfg \<lparr>fresh = n, events = []\<rparr>)). isAdapter ev] =
             [AdapterCreated (n + 4) (n + 2) (n + 3), AdapterSet (n + 1) (n + 4)]"
    unfolding startServer_success [OF assms] by (simp split: binding.splits)
  ultimately show ?thesis by blast
qed

theorem two_backbone_clients_witness:
  "\<exists>pub sub adapter io.
     pub \<noteq> sub
   \<and> [ev \<leftarrow> events (world_of (startServer healthy_env sample_config \<lparr>fresh = 0, events = []\<rparr>)).
        isClient ev] =
       [ClientCreated pub (REDIS_HOST sample_config), ClientDuplicated sub pub]
   \<and> [ev \<leftarrow> events (world_of (startServer healthy_env sample_config \<lparr>fresh = 0, events = []\<rparr>)).
        isConnect ev] =
       [ConnectCalled pub, ConnectCalled sub]
   \<and> [ev \<leftarrow> events (world_of (startServer healthy_env sample_config \<lparr>fresh = 0, events = []\<rparr>)).
        isAdapter ev] =
       [AdapterCreated adapter pub sub, AdapterSet io adapter]"
proof -
  have no_throw: "\<forall>s. throws healthy_env s = None"
    by (simp add: healthy_env_def)
  have pub: "connectPub healthy_env = Fulfils"
    by (simp add: healthy_env_def)
  have sub: "connectSub healthy_env = Fulfils"
    by (simp add: healthy_env_def)
  show ?thesis
    by (rule two_backbone_clients [OF no_throw pub sub])
qed

text \<open>
  Claim C9. In a startup where no call throws and both connections are made, \<open>listen\<close>
  is called exactly once, with \<open>SERVER_PORT\<close> (5000), on the one HTTP server created from
  the Express application; the one socket.io server is attached to that same HTTP
  server, so requests and upgrades arrive on the same port.
\<close>

theorem one_port_shared:
  assumes "\<forall>s. throws en s = None" and "connectPub en = Fulfils" and "connectSub en = Fulfils"
  shows "[ev \<leftarrow> events (world_of (startServer en cfg \<lparr>fresh = n, events = []\<rparr>)). isListen ev] =
           [ListenCalled n SERVER_PORT]
       \<and> SERVER_PORT = 5000
       \<and> [ev \<leftarrow> events (world_of (startServer en cfg \<lparr>fresh = n, events = []\<rparr>)). isServer ev] =
           [HttpServerCreated n,
            SocketServerCreated (n + 1) n
              \<lparr>origin = CLIENT_URL cfg, methods = [''GET'', ''POST'', ''DELETE'', ''OPTIONS'']\<rparr>]"
  unfolding startServer_success [OF assms] by (simp add: SERVER_PORT_def split: binding.splits)

theorem one_port_shared_witness:
  "[ev \<leftarrow> events (world_of (startServer healthy_env sample_config \<lparr>fresh = 0, events = []\<rparr>)).
      isListen ev] = [ListenCalled 0 5000]
   \<and> [ev \<leftarrow> events (world_of (startServer healthy_env sample_config \<lparr>fresh = 0, events = []\<rparr>)).
        isServer ev] =
       [HttpServerCreated 0,
        SocketServerCreated 1 0
          \<lparr>origin = Some ''http://localhost:3000'',
            methods = [''GET'', ''POST'', ''DELETE'', ''OPTIONS'']\<rparr>]"
proof -
  have no_throw: "\<forall>s. throws healthy_env s = None"
    by (simp add: healthy_env_def)
  have pub: "connectPub healthy_env = Fulfils"
    by (simp add: healthy_env_def)
  have sub: "connectSub healthy_env = Fulfils"
    by (simp add: healthy_env_def)
  from one_port_shared [OF no_throw pub sub, of sample_config 0]
  show ?thesis
    by (simp add: sample_config_def)
qed

text \<open>
  Claim C10, as stated, has every failure of a step of startup caught and only logged,
  with no listener started and the process kept alive. When the port is taken,
  \<open>listen\<close> returns and the failure arrives afterwards as an \<open>error\<close> event on the HTTP
  server, which has no listener for it: \<open>listen\<close> was called, nothing is logged, and the
  process ends on the uncaught exception.
\<close>

theorem port_taken_not_caught:
  "startServer port_taken_env sample_config \<lparr>fresh = 0, events = []\<rparr> =
     Aborts address_in_use
       \<lparr>fresh = 5, events =
          [HttpServerCreated 0,
           SocketServerCreated 1 0
             \<lparr>origin = Some ''http://localhost:3000'',
               methods = [''GET'', ''POST'', ''DELETE'', ''OPTIONS'']\<rparr>,
           ClientCreated 2 (Some ''redis://localhost:6379''),
           ClientDuplicated 3 2,
           ConnectCalled 2,
           ConnectCalled 3,
           AdapterCreated 4 2 3,
           AdapterSet 1 4,
           Logged (Info (''Server has started with process '' @ string_of_nat 4242)),
           ListenCalled 0 5000,
           ErrorEmitted 0 address_in_use]\<rparr>"
  by (simp add: startup_defs port_taken_env_def sample_config_def SERVER_PORT_def)

text \<open>
  Claim C10, amended. Whatever is thrown inside the \<open>try\<close> block of \<open>startServer\<close>, a
  rejected \<open>connect()\<close> promise included, is caught and logged, and \<open>startServer\<close>
  returns: up to the throw no call of \<open>listen\<close> has returned and \<open>connect()\<close> was called at most
  once on each client, and the log entry is the last event. In particular, when the
  calls ahead of the connections return and either \<open>connect()\<close> promise is rejected, the
  run is: the two servers and the two clients are created, \<open>connect()\<close> is called once
  on each client, a rejection is logged, and nothing else happens. No run of
  \<open>startServer\<close> throws. A failure that is not a throw inside the block (the port that
  cannot be bound) is left out.
\<close>

theorem startup_failure_only_logged:
  "(startServerBody en cfg \<lparr>fresh = n, events = []\<rparr> = Throws e w \<longrightarrow>
      startServer en cfg \<lparr>fresh = n, events = []\<rparr> =
        Returns () (w\<lparr>events := events w @ [Logged (Error e)]\<rparr>)
      \<and> [ev \<leftarrow> events w. isListen ev] = []
      \<and> prefix [ev \<leftarrow> events w. isConnect ev] [ConnectCalled (n + 2), ConnectCalled (n + 3)])
   \<and> (throws en NewHttpServer = None \<and> throws en NewSocketServer = None \<and>
      throws en CreateClient = None \<and> throws en Duplicate = None \<and>
      (connectPub en = Rejects f \<or> connectSub en = Rejects f) \<longrightarrow>
      (\<exists>g. (connectPub en = Rejects g \<or> connectSub en = Rejects g) \<and>
           startServer en cfg \<lparr>fresh = n, events = []\<rparr> =
             Returns () \<lparr>fresh = n + 4, events =
               [HttpServerCreated n,
                SocketServerCreated (n + 1) n
                  \<lparr>origin = CLIENT_URL cfg, methods = [''GET'', ''POST'', ''DELETE'', ''OPTIONS'']\<rparr>,
                ClientCreated (n + 2) (REDIS_HOST cfg),
                ClientDuplicated (n + 3) (n + 2),
                ConnectCalled (n + 2),
                ConnectCalled (n + 3),
                Logged (Error g)]\<rparr>))
   \<and> startServer en cfg \<lparr>fresh = n, events = []\<rparr> \<noteq> Throws e' w'"
proof (intro conjI impI)
  assume t: "startServerBody en cfg \<lparr>fresh = n, events = []\<rparr> = Throws e w"
  then show "startServer en cfg \<lparr>fresh = n, events = []\<rparr> =
        Returns () (w\<lparr>events := events w @ [Logged (Error e)]\<rparr>)"
    by (simp add: startServer_def try_catch_def emit_def)
  from body_throws_trace [OF t]
  show "[ev \<leftarrow> events w. isListen ev] = []"
    and "prefix [ev \<leftarrow> events w. isConnect ev] [ConnectCalled (n + 2), ConnectCalled (n + 3)]"
    by simp_all
next
  assume a: "throws en NewHttpServer = None \<and> throws en NewSocketServer = None \<and>
      throws en CreateClient = None \<and> throws en Duplicate = None \<and>
      (connectPub en = Rejects f \<or> connectSub en = Rejects f)"
  then obtain g where g: "promise_all (connectPub en) (connectSub en) (subSettlesFirst en) = Rejects g"
    using promise_all_rejected by blast
  have which: "connectPub en = Rejects g \<or> connectSub en = Rejects g"
    using g by (rule promise_all_Rejects)
  have "startServer en cfg \<lparr>fresh = n, events = []\<rparr> =
             Returns () \<lparr>fresh = n + 4, events =
               [HttpServerCreated n,
                SocketServerCreated (n + 1) n
                  \<lparr>origin = CLIENT_URL cfg, methods = [''GET'', ''POST'', ''DELETE'', ''OPTIONS'']\<rparr>,
                ClientCreated (n + 2) (REDIS_HOST cfg),
                ClientDuplicated (n + 3) (n + 2),
                ConnectCalled (n + 2),
                ConnectCalled (n + 3),
                Logged (Error g)]\<rparr>"
    using a g body_rejected [of en g cfg n]
    by (simp add: startServer_def try_catch_def emit_def)
  with which show "\<exists>g. (connectPub en = Rejects g \<or> connectSub en = Rejects g) \<and>
           startServer en cfg \<lparr>fresh = n, events = []\<rparr> =
             Returns () \<lparr>fresh = n + 4, events =
               [HttpServerCreated n,
                SocketServerCreated (n + 1) n
                  \<lparr>origin = CLIENT_URL cfg, methods = [''GET'', ''POST'', ''DELETE'', ''OPTIONS'']\<rparr>,
                ClientCreated (n + 2) (REDIS_HOST cfg),
                ClientDuplicated (n + 3) (n + 2),
                ConnectCalled (n + 2),
                ConnectCalled (n + 3),
                Logged (Error g)]\<rparr>"
    by blast
next
  show "startServer en cfg \<lparr>fresh = n, events = []\<rparr> \<noteq> Throws e' w'"
    by (rule startServer_catches)
qed

theorem startup_failure_only_logged_witness:
  "startServerBody refusing_env sample_config \<lparr>fresh = 0, events = []\<rparr> =
     Throws refused
       \<lparr>fresh = 4, events =
          [HttpServerCreated 0,
           SocketServerCreated 1 0
             \<lparr>origin = Some ''http://localhost:3000'',
               methods = [''GET'', ''POST'', ''DELETE'', ''OPTIONS'']\<rparr>,
           ClientCreated 2 (Some ''redis://localhost:6379''),
           ClientDuplicated 3 2,
           ConnectCalled 2,
           ConnectCalled 3]\<rparr>
   \<and> startServer refusing_env sample_config \<lparr>fresh = 0, events = []\<rparr> =
     Returns ()
       \<lparr>fresh = 4, events =
          [HttpServerCreated 0,
           SocketServerCreated 1 0
             \<lparr>origin = Some ''http://localhost:3000'',
               methods = [''GET'', ''POST'', ''DELETE'', ''OPTIONS'']\<rparr>,
           ClientCreated 2 (Some ''redis://localhost:6379''),
           ClientDuplicated 3 2,
           ConnectCalled 2,
           ConnectCalled 3,
           Logged (Error refused)]\<rparr>"
proof -
  let ?w = "\<lparr>fresh = 4, events =
          [HttpServerCreated 0,
           SocketServerCreated 1 0
             \<lparr>origin = Some ''http://localhost:3000'',
               methods = [''GET'', ''POST'', ''DELETE'', ''OPTIONS'']\<rparr>,
           ClientCreated 2 (Some ''redis://localhost:6379''),
           ClientDuplicated 3 2,
           ConnectCalled 2,
           ConnectCalled 3]\<rparr>"
  have thrown: "startServerBody refusing_env sample_config \<lparr>fresh = 0, events = []\<rparr> =
                  Throws refused ?w"
    by (simp add: startServerBody_def createSocketIO_def construct_def and_then_def emit_def
        alloc_def extern_def await_def ret_def refusing_env_def sample_config_def)
  have ahead: "throws refusing_env NewHttpServer = None \<and> throws refusing_env NewSocketServer = None \<and>
      throws refusing_env CreateClient = None \<and> throws refusing_env Duplicate = None \<and>
      (connectPub refusing_env = Rejects refused \<or> connectSub refusing_env = Rejects refused)"
    by (simp add: refusing_env_def)
  from startup_failure_only_logged [of refusing_env sample_config 0 refused ?w refused]
    thrown ahead
  show ?thesis
    by simp
qed

end
